theory Spec2Isabelle
  imports Complex_Main
begin

section \<open>Numbers as numpy and pandas produce them\<close>

text \<open>
  Decibel levels and every metric derived from them are Python or numpy floats in the
  source. The statistics are modelled in exact real arithmetic. Rounding to the binary64
  format is modelled where a verdict hangs on it: in the subtraction of two noise ratios
  that \<open>test_hypothesis2\<close> compares with its threshold. Everywhere the non-finite results
  that numpy returns instead of raising are part of the model: \<open>0 / 0\<close> is \<open>nan\<close>,
  \<open>x / 0\<close> is an infinity, the mean, extremes and standard deviation of an empty column
  are \<open>nan\<close>, and every comparison with \<open>nan\<close> is false.
\<close>

datatype npfloat = Fin real | NaN | PosInf | NegInf

text \<open>numpy's true division of two finite numbers (a warning, never an exception).\<close>

definition np_div :: "real \<Rightarrow> real \<Rightarrow> npfloat" where
  "np_div a b =
     (if b \<noteq> 0 then Fin (a / b)
      else if a = 0 then NaN
      else if a > 0 then PosInf else NegInf)"

fun fmul :: "npfloat \<Rightarrow> real \<Rightarrow> npfloat" where
  "fmul (Fin r) c = Fin (r * c)"
| "fmul NaN c = NaN"
| "fmul PosInf c = (if c > 0 then PosInf else if c < 0 then NegInf else NaN)"
| "fmul NegInf c = (if c > 0 then NegInf else if c < 0 then PosInf else NaN)"

subsection \<open>Rounding to binary64\<close>





subsection \<open>Operations on floats\<close>



fun fless :: "npfloat \<Rightarrow> npfloat \<Rightarrow> bool" where
  "fless (Fin a) (Fin b) = (a < b)"
| "fless NaN y = False"
| "fless x NaN = False"
| "fless PosInf y = False"
| "fless x PosInf = True"
| "fless NegInf NegInf = False"
| "fless NegInf (Fin b) = True"
| "fless (Fin a) NegInf = False"


text \<open>Python's \<open>int(x)\<close> on a float truncates towards zero.\<close>

definition py_int :: "real \<Rightarrow> int" where
  "py_int x = (if x \<ge> 0 then \<lfloor>x\<rfloor> else \<lceil>x\<rceil>)"

text \<open>The slice \<open>xs[:k]\<close> (also \<open>.iloc[:k]\<close>): a negative \<open>k\<close> counts from the end.\<close>

definition slice_to :: "'a list \<Rightarrow> int \<Rightarrow> 'a list" where
  "slice_to xs k = (if k \<ge> 0 then take (nat k) xs else take (length xs - nat (- k)) xs)"

subsection \<open>Column reductions of pandas\<close>

text \<open>\<open>.sum()\<close> of a boolean column counts its true entries.\<close>

definition bool_sum :: "bool list \<Rightarrow> nat" where
  "bool_sum bs = length (filter (\<lambda>b. b) bs)"

definition series_mean :: "real list \<Rightarrow> npfloat" where
  "series_mean xs = (if xs = [] then NaN else Fin (sum_list xs / real (length xs)))"

definition series_max :: "real list \<Rightarrow> npfloat" where
  "series_max xs = (if xs = [] then NaN else Fin (Max (set xs)))"

definition series_min :: "real list \<Rightarrow> npfloat" where
  "series_min xs = (if xs = [] then NaN else Fin (Min (set xs)))"

text \<open>
  \<open>Series.std(ddof)\<close>: the mean is \<open>sum / count\<close>, the squared deviations from it are
  summed and divided by \<open>count - ddof\<close>, and the square root is taken; the result is
  \<open>nan\<close> when \<open>count - ddof\<close> is not positive. The source calls \<open>.std()\<close> without an
  argument, which is \<open>ddof = 1\<close>.
\<close>

definition series_var :: "nat \<Rightarrow> real list \<Rightarrow> npfloat" where
  "series_var ddof xs =
     (let count = length xs;
          d = int count - int ddof
      in if d \<le> 0 then NaN
         else let avg = sum_list xs / real count;
                  sqr = map (\<lambda>x. (avg - x)\<^sup>2) xs
              in Fin (sum_list sqr / real_of_int d))"

definition series_std :: "nat \<Rightarrow> real list \<Rightarrow> npfloat" where
  "series_std ddof xs = (case series_var ddof xs of Fin v \<Rightarrow> Fin (sqrt v) | y \<Rightarrow> y)"

definition default_ddof :: nat where
  "default_ddof = 1"

subsection \<open>Rolling windows of pandas\<close>

text \<open>
  \<open>rolling(window, center=True, min_periods)\<close> on a fixed integer window: for row \<open>i\<close> of
  \<open>num_values\<close> rows the window is the half-open range \<open>[end - window, end)\<close> with
  \<open>end = i + 1 + (window - 1) // 2\<close>, both bounds clipped to \<open>[0, num_values]\<close>. A window
  holding fewer than \<open>min_periods\<close> rows yields \<open>nan\<close>. pandas refuses a window below
  \<open>min_periods\<close> with a ValueError before anything is computed.
\<close>

definition clip :: "int \<Rightarrow> int \<Rightarrow> int \<Rightarrow> int" where
  "clip x lo hi = min (max x lo) hi"

definition window_bounds :: "nat \<Rightarrow> int \<Rightarrow> nat \<Rightarrow> nat \<times> nat" where
  "window_bounds num_values window i =
     (let offset = (window - 1) div 2;
          end = int i + 1 + offset;
          start = end - window
      in (nat (clip start 0 (int num_values)), nat (clip end 0 (int num_values))))"

definition rolling_windows :: "int \<Rightarrow> 'a list \<Rightarrow> 'a list list" where
  "rolling_windows window xs =
     map (\<lambda>i. case window_bounds (length xs) window i of
                 (start, end) \<Rightarrow> take (end - start) (drop start xs))
         [0..<length xs]"

definition rolling_mean :: "int \<Rightarrow> nat \<Rightarrow> real list \<Rightarrow> npfloat list" where
  "rolling_mean window min_periods xs =
     map (\<lambda>w. if length w \<ge> min_periods then series_mean w else NaN)
         (rolling_windows window xs)"

definition rolling_std :: "int \<Rightarrow> nat \<Rightarrow> real list \<Rightarrow> npfloat list" where
  "rolling_std window min_periods xs =
     map (\<lambda>w. if length w \<ge> min_periods then series_std default_ddof w else NaN)
         (rolling_windows window xs)"

section \<open>The analyzer: \<open>sleep_analyzer.py\<close>\<close>

datatype py_error = KeyError | IndexError | ZeroDivisionError | ValueError | TypeError

text \<open>
  The data frame by column. \<open>dB\<close> is the loaded column of levels; the three other
  columns exist only once \<open>preprocess_data\<close> has run.
\<close>

record dataframe =
  dB :: "real list"
  dB_smoothed :: "npfloat list option"
  is_noise :: "bool list option"
  is_rem :: "bool list option"

text \<open>
  The statistics dictionary. Its keys are Korean strings in the source; here each key is
  a constructor named after the field of the specification's metrics record, in the
  order in which the source assigns them (the ten keys of the dictionary literal, the REM
  ratio, the first-hour ratio, the four band ratios, the hourly list; the last two are
  the phone and game minutes that \<open>analyze_condition\<close> adds). Numbers of either Python
  type are one kind of value; a string can only come from the experiment log.
\<close>

datatype key =
    Total_samples | Total_duration_minutes | Noise_sample_count | Noise_ratio_pct
  | Mean_db | Max_db | Min_db | Stddev_db
  | Avg_noise_streak_seconds | Max_noise_streak_seconds
  | Rem_sleep_pct | First_hour_noise_ratio_pct
  | Deep_sleep_pct | Light_sleep_pct | Restless_pct | Disturbed_pct
  | Hourly_quality | Phone_usage_minutes | Game_minutes

record hour_bucket =
  hour :: nat
  avg_db :: npfloat
  deep_sleep :: npfloat
  restless :: npfloat

datatype pyval = Number npfloat | Buckets "hour_bucket list" | Text string

type_synonym stats_dict = "key \<rightharpoonup> pyval"

record analyzer =
  threshold_db :: real
  data :: "dataframe option"
  stats :: stats_dict
  measurement_interval :: real

text \<open>\<open>SleepAnalyzer(threshold_db=40)\<close>\<close>

definition new_analyzer :: "real \<Rightarrow> analyzer" where
  "new_analyzer threshold =
     \<lparr>threshold_db = threshold, data = None, stats = Map.empty, measurement_interval = 1\<rparr>"

definition default_threshold_db :: real where
  "default_threshold_db = 40"

definition default_window_size :: int where
  "default_window_size = 5"

subsection \<open>\<open>load_data\<close>\<close>

text \<open>
  Reading the file is outside the model: \<open>rows\<close> are the records of the file as pandas
  parsed them, the time of day in seconds (\<open>None\<close> when the time column is missing or a
  time could not be parsed) and the level. The interval is the difference of the first two
  times when it is positive, and 1 in every other case. A file that cannot be read leaves
  the analyzer as it was, without data.
\<close>

definition load_data :: "(real option \<times> real) list \<Rightarrow> analyzer \<Rightarrow> analyzer" where
  "load_data rows self =
     (let interval =
            (if length rows > 1 then
               (case fst (rows ! 0) of
                  None \<Rightarrow> 1
                | Some t0 \<Rightarrow>
                    (case fst (rows ! 1) of
                       None \<Rightarrow> 1
                     | Some t1 \<Rightarrow> let time_diff = t1 - t0
                                  in if time_diff > 0 then time_diff else 1))
             else 1)
      in self\<lparr>data := Some \<lparr>dB = map snd rows, dB_smoothed = None, is_noise = None,
                              is_rem = None\<rparr>,
              measurement_interval := interval\<rparr>)"

subsection \<open>\<open>preprocess_data\<close>\<close>

text \<open>The three columns the method writes: the smoothed level, the noise flag, the REM flag.\<close>

definition annotated :: "int \<Rightarrow> real \<Rightarrow> dataframe \<Rightarrow> dataframe" where
  "annotated window_size threshold df =
     (let smoothed = rolling_mean window_size 1 (dB df);
          noise = map (\<lambda>x. x \<ge> threshold) (dB df);
          window_std = rolling_std 60 1 (dB df);
          avg = series_mean (dB df);
          rem = map (\<lambda>(x, s). fless (Fin x) avg \<and> fless (Fin 1.5) s \<and> fless s (Fin 4))
                    (zip (dB df) window_std)
      in df\<lparr>dB_smoothed := Some smoothed, is_noise := Some noise, is_rem := Some rem\<rparr>)"

text \<open>
  Without data the method prints a message and returns; the analyzer is unchanged. The
  only failure is the ValueError of \<open>rolling\<close> for a window below one, raised before any
  column is written.
\<close>

definition preprocess_data :: "int \<Rightarrow> analyzer \<Rightarrow> py_error + analyzer" where
  "preprocess_data window_size self =
     (case data self of
        None \<Rightarrow> Inr self
      | Some df \<Rightarrow>
          if window_size < 1 then Inl ValueError
          else Inr (self\<lparr>data := Some (annotated window_size (threshold_db self) df)\<rparr>))"

subsection \<open>\<open>calculate_statistics\<close>\<close>

text \<open>The loop over \<open>is_noise\<close> that collects the lengths of the noise streaks.\<close>

fun streak_loop :: "bool list \<Rightarrow> nat \<Rightarrow> nat list \<Rightarrow> nat \<times> nat list" where
  "streak_loop [] current_streak consecutive_noise = (current_streak, consecutive_noise)"
| "streak_loop (flag # rest) current_streak consecutive_noise =
     (if flag then streak_loop rest (current_streak + 1) consecutive_noise
      else streak_loop rest 0
             (if current_streak > 0 then consecutive_noise @ [current_streak]
              else consecutive_noise))"

definition noise_streaks :: "bool list \<Rightarrow> nat list" where
  "noise_streaks flags =
     (case streak_loop flags 0 [] of
        (current_streak, consecutive_noise) \<Rightarrow>
          if current_streak > 0 then consecutive_noise @ [current_streak]
          else consecutive_noise)"

definition avg_streak_seconds :: "nat list \<Rightarrow> real \<Rightarrow> real" where
  "avg_streak_seconds consecutive_noise interval =
     (if consecutive_noise \<noteq> []
      then real (sum_list consecutive_noise) / real (length consecutive_noise) * interval
      else 0)"

definition max_streak_seconds :: "nat list \<Rightarrow> real \<Rightarrow> real" where
  "max_streak_seconds consecutive_noise interval =
     (if consecutive_noise \<noteq> [] then real (Max (set consecutive_noise)) * interval else 0)"

text \<open>A part of a whole as a percentage: \<open>(part / whole) * 100\<close>.\<close>

definition pct :: "real \<Rightarrow> real \<Rightarrow> npfloat" where
  "pct part whole = fmul (np_div part whole) 100"

definition count_where :: "('a \<Rightarrow> bool) \<Rightarrow> 'a list \<Rightarrow> nat" where
  "count_where p xs = bool_sum (map p xs)"

text \<open>The dictionary literal assigned to \<open>self.stats\<close>, and the REM ratio after it.\<close>

definition scalar_stats :: "real \<Rightarrow> dataframe \<Rightarrow> bool list \<Rightarrow> stats_dict" where
  "scalar_stats interval df noise =
     (let total_records = length (dB df);
          noise_records = bool_sum noise;
          noise_ratio = pct (real noise_records) (real total_records);
          consecutive_noise = noise_streaks noise;
          total_seconds = real total_records * interval
      in [Total_samples \<mapsto> Number (Fin (real total_records)),
          Total_duration_minutes \<mapsto> Number (Fin (total_seconds / 60)),
          Noise_sample_count \<mapsto> Number (Fin (real noise_records)),
          Noise_ratio_pct \<mapsto> Number noise_ratio,
          Mean_db \<mapsto> Number (series_mean (dB df)),
          Max_db \<mapsto> Number (series_max (dB df)),
          Min_db \<mapsto> Number (series_min (dB df)),
          Stddev_db \<mapsto> Number (series_std default_ddof (dB df)),
          Avg_noise_streak_seconds \<mapsto> Number (Fin (avg_streak_seconds consecutive_noise interval)),
          Max_noise_streak_seconds \<mapsto> Number (Fin (max_streak_seconds consecutive_noise interval))])"

definition rem_stats :: "dataframe \<Rightarrow> stats_dict \<Rightarrow> stats_dict" where
  "rem_stats df st =
     (case is_rem df of
        None \<Rightarrow> st
      | Some rem \<Rightarrow>
          st(Rem_sleep_pct \<mapsto> Number (pct (real (bool_sum rem)) (real (length (dB df))))))"

text \<open>The first hour: the first \<open>int(3600 / interval)\<close> rows, at most all of them.\<close>

definition first_hour_ratio :: "real \<Rightarrow> nat \<Rightarrow> bool list \<Rightarrow> npfloat" where
  "first_hour_ratio interval total_records noise =
     (let first_hour_records = py_int (3600 / interval);
          first_hour_count = min first_hour_records (int total_records);
          first_hour_noise = bool_sum (slice_to noise first_hour_count)
      in pct (real first_hour_noise) (real_of_int first_hour_count))"

definition band_stats :: "dataframe \<Rightarrow> stats_dict \<Rightarrow> stats_dict" where
  "band_stats df st =
     (let total_records = length (dB df);
          deep = count_where (\<lambda>x. x < 30) (dB df);
          light = count_where (\<lambda>x. x \<ge> 30 \<and> x < 35) (dB df);
          restless_count = count_where (\<lambda>x. x \<ge> 35 \<and> x < 40) (dB df);
          disturbed = count_where (\<lambda>x. x \<ge> 40) (dB df)
      in st(Deep_sleep_pct \<mapsto> Number (pct (real deep) (real total_records)),
            Light_sleep_pct \<mapsto> Number (pct (real light) (real total_records)),
            Restless_pct \<mapsto> Number (pct (real restless_count) (real total_records)),
            Disturbed_pct \<mapsto> Number (pct (real disturbed) (real total_records))))"

text \<open>
  The hourly list: \<open>time_hours\<close> is the elapsed time of each row in hours, the loop runs
  over \<open>range(int(ceil(time_hours[-1])))\<close>, and an hour whose mask selects no row adds
  nothing.
\<close>

definition time_hours_of :: "real \<Rightarrow> nat \<Rightarrow> real list" where
  "time_hours_of interval n = map (\<lambda>i. real i * interval / 3600) [0..<n]"

definition hour_entry :: "real list \<Rightarrow> real list \<Rightarrow> nat \<Rightarrow> hour_bucket option" where
  "hour_entry time_hours levels h =
     (let hour_mask = map (\<lambda>t. t \<ge> real h \<and> t < real h + 1) time_hours
      in if bool_sum hour_mask > 0
         then let hour_data = map snd (filter fst (zip hour_mask levels))
              in Some \<lparr>hour = h,
                       avg_db = series_mean hour_data,
                       deep_sleep = pct (real (count_where (\<lambda>x. x < 30) hour_data))
                                        (real (length hour_data)),
                       restless = pct (real (count_where (\<lambda>x. x \<ge> 35 \<and> x < 40) hour_data))
                                      (real (length hour_data))\<rparr>
         else None)"

definition hourly_quality_of :: "real list \<Rightarrow> real list \<Rightarrow> hour_bucket list" where
  "hourly_quality_of time_hours levels =
     List.map_filter (hour_entry time_hours levels)
       [0..<nat (py_int (real_of_int \<lceil>last time_hours\<rceil>))]"

text \<open>
  The method returns \<open>None\<close> without data, raises KeyError when the \<open>is_noise\<close> column
  does not exist, ZeroDivisionError for a zero interval and IndexError at
  \<open>time_hours[-1]\<close> for a frame without rows; otherwise it returns the dictionary. The
  dictionary is built in \<open>self.stats\<close>, so an exception leaves there what had been
  assigned before it.
\<close>

definition calculate_statistics :: "analyzer \<Rightarrow> (py_error + stats_dict option) \<times> analyzer" where
  "calculate_statistics self =
     (case data self of
        None \<Rightarrow> (Inr None, self)
      | Some df \<Rightarrow>
          (case is_noise df of
             None \<Rightarrow> (Inl KeyError, self)
           | Some noise \<Rightarrow>
               let interval = measurement_interval self;
                   total_records = length (dB df);
                   stats1 = rem_stats df (scalar_stats interval df noise)
               in if interval = 0 then (Inl ZeroDivisionError, self\<lparr>stats := stats1\<rparr>)
                  else
                    let stats2 = band_stats df
                          (stats1(First_hour_noise_ratio_pct \<mapsto>
                                    Number (first_hour_ratio interval total_records noise)));
                        time_hours = time_hours_of interval total_records
                    in if time_hours = [] then (Inl IndexError, self\<lparr>stats := stats2\<rparr>)
                       else
                         let stats3 = stats2(Hourly_quality \<mapsto>
                                        Buckets (hourly_quality_of time_hours (dB df)))
                         in (Inr (Some stats3), self\<lparr>stats := stats3\<rparr>)))"

text \<open>
  The dictionary a call returns when nothing is raised: the value of \<open>self.stats\<close> after
  the last assignment.
\<close>

definition full_stats :: "real \<Rightarrow> dataframe \<Rightarrow> bool list \<Rightarrow> stats_dict" where
  "full_stats interval df noise =
     (band_stats df
        ((rem_stats df (scalar_stats interval df noise))
           (First_hour_noise_ratio_pct \<mapsto>
              Number (first_hour_ratio interval (length (dB df)) noise))))
       (Hourly_quality \<mapsto>
          Buckets (hourly_quality_of (time_hours_of interval (length (dB df))) (dB df)))"

section \<open>The comparison of conditions: \<open>hypothesis_test.py\<close>\<close>


text \<open>
  \<open>analyze_condition\<close> stores under the condition's name whatever
  \<open>calculate_statistics\<close> returned, and that is \<open>None\<close> when the file could not be
  loaded. The registrations are the dictionary with such entries; \<open>compare_conditions\<close>
  is modelled on registries, without them.
\<close>

type_synonym registrations = "(string \<times> stats_dict option) list"

text \<open>Assignment to a key: the value is replaced in place, a new key goes to the end.\<close>

fun dict_set :: "'k \<Rightarrow> 'v \<Rightarrow> ('k \<times> 'v) list \<Rightarrow> ('k \<times> 'v) list" where
  "dict_set k v [] = [(k, v)]"
| "dict_set k v ((k', v') # rest) =
     (if k' = k then (k, v) # rest else (k', v') # dict_set k v rest)"

text \<open>
  What every dictionary satisfies that comes from \<open>calculate_statistics\<close> by way of
  \<open>analyze_condition\<close> with numbers in the experiment log: the noise ratio is a number,
  and so are the phone minutes when the key is there.
\<close>

definition is_number :: "pyval \<Rightarrow> bool" where
  "is_number v = (case v of Number x \<Rightarrow> True | _ \<Rightarrow> False)"

definition numeric_at :: "stats_dict \<Rightarrow> key \<Rightarrow> bool" where
  "numeric_at st k = (case st k of Some v \<Rightarrow> is_number v | None \<Rightarrow> False)"

definition analysed :: "stats_dict \<Rightarrow> bool" where
  "analysed st \<longleftrightarrow>
     numeric_at st Noise_ratio_pct
     \<and> (st Phone_usage_minutes = None \<or> numeric_at st Phone_usage_minutes)"


subsection \<open>\<open>analyze_condition\<close>\<close>

text \<open>
  The file is outside the model: \<open>loaded\<close> holds its parsed records, or \<open>None\<close> when
  \<open>load_data\<close> failed and left the new analyzer without data. \<open>experiment_info\<close> is
  \<open>None\<close> for no dictionary or an empty one; otherwise it holds the values found under
  the phone and the game key, each replaced by 0 when the key is missing. An exception of
  \<open>calculate_statistics\<close> propagates, and so does the TypeError of assigning into \<open>None\<close>.
\<close>

record log_entry =
  phone_minutes :: "pyval option"
  game_minutes :: "pyval option"

definition get_or_zero :: "pyval option \<Rightarrow> pyval" where
  "get_or_zero v = (case v of None \<Rightarrow> Number (Fin 0) | Some x \<Rightarrow> x)"

definition analyze_condition ::
  "real \<Rightarrow> (real option \<times> real) list option \<Rightarrow> string \<Rightarrow> log_entry option
     \<Rightarrow> registrations \<Rightarrow> py_error + registrations" where
  "analyze_condition threshold loaded condition_name experiment_info condition_stats =
     (let analyzer0 = new_analyzer threshold;
          analyzer1 = (case loaded of None \<Rightarrow> analyzer0 | Some rows \<Rightarrow> load_data rows analyzer0)
      in case preprocess_data default_window_size analyzer1 of
           Inl e \<Rightarrow> Inl e
         | Inr analyzer2 \<Rightarrow>
             (case fst (calculate_statistics analyzer2) of
                Inl e \<Rightarrow> Inl e
              | Inr stats_result \<Rightarrow>
                  (case experiment_info of
                     None \<Rightarrow> Inr (dict_set condition_name stats_result condition_stats)
                   | Some info \<Rightarrow>
                       (case stats_result of
                          None \<Rightarrow> Inl TypeError
                        | Some st \<Rightarrow>
                            Inr (dict_set condition_name
                                   (Some (st(Phone_usage_minutes \<mapsto>
                                               get_or_zero (phone_minutes info),
                                             Game_minutes \<mapsto>
                                               get_or_zero (game_minutes info))))
                                   condition_stats)))))"

subsection \<open>\<open>compare_conditions\<close>\<close>


text \<open>The key metrics that \<open>calculate_statistics\<close> sets in every dictionary it returns.\<close>

definition scalar_metrics :: "key list" where
  "scalar_metrics =
     [Noise_ratio_pct, Mean_db, Max_db, Avg_noise_streak_seconds, First_hour_noise_ratio_pct]"





subsection \<open>\<open>test_hypothesis2\<close>\<close>








section \<open>Run-length encoding\<close>

text \<open>
  The run-length encoding of a list: each maximal run of equal neighbours becomes one
  pair of the value and the length of the run. It is the yardstick for the streak loop.
\<close>

fun rle :: "'a list \<Rightarrow> ('a \<times> nat) list" where
  "rle [] = []"
| "rle (x # xs) =
     (case rle xs of
        [] \<Rightarrow> [(x, 1)]
      | (y, n) # rest \<Rightarrow> if x = y then (y, Suc n) # rest else (x, 1) # (y, n) # rest)"

definition decode :: "('a \<times> nat) list \<Rightarrow> 'a list" where
  "decode enc = concat (map (\<lambda>run. replicate (snd run) (fst run)) enc)"

text \<open>The noise streaks as the specification words them: the lengths of the runs of true.\<close>

definition noise_runs :: "bool list \<Rightarrow> nat list" where
  "noise_runs flags = map snd (filter fst (rle flags))"

section \<open>Sample inputs\<close>

text \<open>Four rows, one in each band, five seconds apart, flagged at the default threshold.\<close>

definition night_frame :: dataframe where
  "night_frame = \<lparr>dB = [25, 32, 37, 45], dB_smoothed = None,
                   is_noise = Some [False, False, False, True], is_rem = None\<rparr>"

definition night :: analyzer where
  "night = \<lparr>threshold_db = 40, data = Some night_frame, stats = Map.empty,
             measurement_interval = 5\<rparr>"

text \<open>Ten rows whose flags are the example of the streak analysis.\<close>

definition streak_frame :: dataframe where
  "streak_frame = \<lparr>dB = [30, 45, 42, 31, 50, 20, 25, 41, 44, 47], dB_smoothed = None,
       is_noise = Some [False, True, True, False, True, False, False, True, True, True],
       is_rem = None\<rparr>"

definition streak_night :: analyzer where
  "streak_night = \<lparr>threshold_db = 40, data = Some streak_frame, stats = Map.empty,
                    measurement_interval = 5\<rparr>"

text \<open>A file with a header and no record, loaded into a new analyzer.\<close>

definition empty_night :: analyzer where
  "empty_night = load_data [] (new_analyzer default_threshold_db)"

text \<open>A file with one record, and one with three records half an hour apart.\<close>

definition single_night :: analyzer where
  "single_night = load_data [(Some 0, 35)] (new_analyzer default_threshold_db)"

definition boundary_night :: analyzer where
  "boundary_night =
     load_data [(Some 0, 28), (Some 1800, 36), (Some 3600, 45)]
       (new_analyzer default_threshold_db)"








text \<open>Two rows, four decibels apart.\<close>

definition pair_frame :: dataframe where
  "pair_frame = \<lparr>dB = [30, 34], dB_smoothed = None, is_noise = Some [False, False],
                  is_rem = None\<rparr>"

definition pair_night :: analyzer where
  "pair_night = \<lparr>threshold_db = 40, data = Some pair_frame, stats = Map.empty,
                  measurement_interval = 5\<rparr>"

section \<open>Properties\<close>

subsection \<open>A call that returns\<close>

lemma time_hours_of_Nil [simp]: "time_hours_of interval n = [] \<longleftrightarrow> n = 0"
  by (simp add: time_hours_of_def)

lemma calculate_statistics_returns:
  assumes "data self = Some df" and "is_noise df = Some noise"
    and "measurement_interval self \<noteq> 0" and "dB df \<noteq> []"
  shows "calculate_statistics self =
           (Inr (Some (full_stats (measurement_interval self) df noise)),
            self\<lparr>stats := full_stats (measurement_interval self) df noise\<rparr>)"
  using assms by (simp add: calculate_statistics_def full_stats_def Let_def)

lemma rem_stats_other: "k \<noteq> Rem_sleep_pct \<Longrightarrow> rem_stats df st k = st k"
  by (simp add: rem_stats_def split: option.splits)

lemma pct_pos: "n \<noteq> 0 \<Longrightarrow> pct c n = Fin (c / n * 100)"
  by (simp add: pct_def np_div_def)

lemma count_where_eq: "count_where p xs = length (filter p xs)"
  by (induction xs) (simp_all add: count_where_def bool_sum_def)

subsection \<open>What a returned dictionary holds\<close>

text \<open>
  The dictionaries that \<open>calculate_statistics\<close> returns satisfy what the theorems on the
  registry ask of its entries, also after \<open>analyze_condition\<close> has added the phone and
  game minutes.
\<close>

lemma full_stats_scalar_metrics:
  "list_all (\<lambda>m. full_stats interval df noise m \<noteq> None) scalar_metrics"
  by (simp add: scalar_metrics_def full_stats_def band_stats_def rem_stats_other
      scalar_stats_def Let_def)

lemma full_stats_analysed: "analysed (full_stats interval df noise)"
  by (simp add: analysed_def numeric_at_def is_number_def full_stats_def band_stats_def rem_stats_other
      scalar_stats_def Let_def)

lemma with_minutes_analysed:
  "analysed st \<Longrightarrow>
   analysed (st(Phone_usage_minutes \<mapsto> Number phone, Game_minutes \<mapsto> Number game))"
  by (simp add: analysed_def numeric_at_def is_number_def)

subsection \<open>The four bands\<close>

lemma full_stats_bands:
  "full_stats interval df noise Deep_sleep_pct =
     Some (Number (pct (real (count_where (\<lambda>x. x < 30) (dB df))) (real (length (dB df)))))"
  "full_stats interval df noise Light_sleep_pct =
     Some (Number (pct (real (count_where (\<lambda>x. x \<ge> 30 \<and> x < 35) (dB df)))
                       (real (length (dB df)))))"
  "full_stats interval df noise Restless_pct =
     Some (Number (pct (real (count_where (\<lambda>x. x \<ge> 35 \<and> x < 40) (dB df)))
                       (real (length (dB df)))))"
  "full_stats interval df noise Disturbed_pct =
     Some (Number (pct (real (count_where (\<lambda>x. x \<ge> 40) (dB df))) (real (length (dB df)))))"
  by (simp_all add: full_stats_def band_stats_def Let_def)

lemma bands_partition:
  "count_where (\<lambda>x. x < 30) xs + count_where (\<lambda>x. x \<ge> 30 \<and> x < 35) xs
     + count_where (\<lambda>x. x \<ge> 35 \<and> x < 40) xs + count_where (\<lambda>x. x \<ge> 40) xs
   = length (xs :: real list)"
  unfolding count_where_eq by (induction xs) auto

text \<open>
  C1. For an analyzer whose frame has at least one row (preprocessed, with a non-zero
  interval), \<open>calculate_statistics\<close> returns a dictionary whose deep, light, restless and
  disturbed ratios are the shares, in percent, of the rows below 30, from 30 to below 35,
  from 35 to below 40 and from 40 on; the four add up to 100, in exact arithmetic and so
  within the tolerance of one millionth.
\<close>

theorem band_percentages_sum:
  assumes "data self = Some df" and "is_noise df = Some noise"
    and "measurement_interval self \<noteq> 0" and "dB df \<noteq> []"
  shows "\<exists>st deep light rest dist.
           fst (calculate_statistics self) = Inr (Some st)
         \<and> st Deep_sleep_pct = Some (Number (Fin deep))
         \<and> st Light_sleep_pct = Some (Number (Fin light))
         \<and> st Restless_pct = Some (Number (Fin rest))
         \<and> st Disturbed_pct = Some (Number (Fin dist))
         \<and> deep = real (length (filter (\<lambda>x. x < 30) (dB df))) / real (length (dB df)) * 100
         \<and> light = real (length (filter (\<lambda>x. 30 \<le> x \<and> x < 35) (dB df)))
                     / real (length (dB df)) * 100
         \<and> rest = real (length (filter (\<lambda>x. 35 \<le> x \<and> x < 40) (dB df)))
                    / real (length (dB df)) * 100
         \<and> dist = real (length (filter (\<lambda>x. 40 \<le> x) (dB df))) / real (length (dB df)) * 100
         \<and> deep + light + rest + dist = 100
         \<and> \<bar>deep + light + rest + dist - 100\<bar> \<le> 1 / 10 ^ 6"
proof -
  let ?n = "real (length (dB df))"
  let ?a = "real (count_where (\<lambda>x. x < 30) (dB df))"
  let ?b = "real (count_where (\<lambda>x. x \<ge> 30 \<and> x < 35) (dB df))"
  let ?c = "real (count_where (\<lambda>x. x \<ge> 35 \<and> x < 40) (dB df))"
  let ?d = "real (count_where (\<lambda>x. x \<ge> 40) (dB df))"
  have n: "?n \<noteq> 0" using assms(4) by simp
  have "?a + ?b + ?c + ?d = ?n"
    unfolding of_nat_add [symmetric] by (simp only: bands_partition)
  then have total: "?a / ?n * 100 + ?b / ?n * 100 + ?c / ?n * 100 + ?d / ?n * 100 = 100"
    using n by (simp add: field_simps)
  show ?thesis
    unfolding calculate_statistics_returns [OF assms]
    using total n by (simp add: full_stats_bands pct_pos count_where_eq)
qed

theorem band_percentages_sum_witness:
  "data night = Some night_frame
   \<and> is_noise night_frame = Some [False, False, False, True]
   \<and> measurement_interval night \<noteq> 0 \<and> dB night_frame \<noteq> []
   \<and> (\<exists>st deep light rest dist.
           fst (calculate_statistics night) = Inr (Some st)
         \<and> st Deep_sleep_pct = Some (Number (Fin deep))
         \<and> st Light_sleep_pct = Some (Number (Fin light))
         \<and> st Restless_pct = Some (Number (Fin rest))
         \<and> st Disturbed_pct = Some (Number (Fin dist))
         \<and> deep + light + rest + dist = 100)"
proof -
  have h: "data night = Some night_frame"
    "is_noise night_frame = Some [False, False, False, True]"
    "measurement_interval night \<noteq> 0" "dB night_frame \<noteq> []"
    by (simp_all add: night_def night_frame_def)
  from band_percentages_sum [OF h] obtain st deep light rest dist where
    "fst (calculate_statistics night) = Inr (Some st)"
    "st Deep_sleep_pct = Some (Number (Fin deep))"
    "st Light_sleep_pct = Some (Number (Fin light))"
    "st Restless_pct = Some (Number (Fin rest))"
    "st Disturbed_pct = Some (Number (Fin dist))"
    "deep + light + rest + dist = 100"
    by blast
  with h show ?thesis by blast
qed

subsection \<open>The streak loop and run-length encoding\<close>

lemma rle_replicate: "rle (replicate n x) = (if n = 0 then [] else [(x, n)])"
  by (induction n) auto

lemma rle_nonempty: "xs \<noteq> [] \<Longrightarrow> rle xs \<noteq> []"
  by (cases xs) (auto split: list.splits)

lemma rle_hd: "rle (x # xs) \<noteq> [] \<and> fst (hd (rle (x # xs))) = x"
  by (auto split: list.splits)

lemma decode_rle: "decode (rle xs) = xs"
proof (induction xs)
  case Nil show ?case by (simp add: decode_def)
next
  case (Cons x xs)
  then show ?case by (auto simp: decode_def split: list.splits)
qed

lemma rle_positive: "list_all (\<lambda>run. 0 < snd run) (rle xs)"
  by (induction xs) (auto split: list.splits)

lemma rle_maximal: "distinct_adj (map fst (rle xs))"
  by (induction xs) (auto split: list.splits)

lemma noise_runs_False: "noise_runs (False # xs) = noise_runs xs"
  by (auto simp: noise_runs_def split: list.splits)

lemma noise_runs_True_False: "noise_runs (replicate n True @ False # xs) = (if n = 0 then [] else [n]) @ noise_runs xs"
proof (induction n)
  case 0 show ?case by (simp add: noise_runs_False)
next
  case (Suc n)
  show ?case
  proof (cases n)
    case 0
    then show ?thesis using rle_hd[of False xs]
      by (auto simp: noise_runs_def split: list.splits)
  next
    case (Suc m)
    with Suc.IH show ?thesis 
      by (auto simp: noise_runs_def split: list.splits if_splits)
  qed
qed

lemma noise_runs_replicate: "noise_runs (replicate n True) = (if n = 0 then [] else [n])"
  by (simp add: noise_runs_def rle_replicate)

lemma streak_loop_runs:
  "(case streak_loop xs cur acc of (c, a) \<Rightarrow> if c > 0 then a @ [c] else a)
     = acc @ noise_runs (replicate cur True @ xs)"
proof (induction xs arbitrary: cur acc)
  case Nil
  show ?case by (simp add: noise_runs_replicate)
next
  case (Cons x xs)
  show ?case
  proof (cases x)
    case True
    then have "(case streak_loop (x # xs) cur acc of (c, a) \<Rightarrow> if c > 0 then a @ [c] else a)
                 = (case streak_loop xs (Suc cur) acc of (c, a) \<Rightarrow> if c > 0 then a @ [c] else a)"
      by simp
    also have "\<dots> = acc @ noise_runs (replicate (Suc cur) True @ xs)"
      by (rule Cons.IH)
    also have "\<dots> = acc @ noise_runs (replicate cur True @ x # xs)"
      using True by (simp add: replicate_app_Cons_same)
    finally show ?thesis .
  next
    case False
    with Cons.IH [of 0] show ?thesis
      by (simp add: noise_runs_True_False)
  qed
qed

lemma noise_streaks_runs: "noise_streaks flags = noise_runs flags"
  using streak_loop_runs [of flags 0 "[]"] by (simp add: noise_streaks_def)

lemma full_stats_streaks:
  "full_stats interval df noise Avg_noise_streak_seconds =
     Some (Number (Fin (avg_streak_seconds (noise_streaks noise) interval)))"
  "full_stats interval df noise Max_noise_streak_seconds =
     Some (Number (Fin (max_streak_seconds (noise_streaks noise) interval)))"
  by (simp_all add: full_stats_def band_stats_def rem_stats_other scalar_stats_def Let_def)

lemma noise_runs_Nil: "noise_runs xs = [] \<longleftrightarrow> True \<notin> set xs"
proof (induction xs)
  case Nil show ?case by (simp add: noise_runs_def)
next
  case (Cons x xs)
  then show ?case
    by (cases x; cases "rle xs") (auto simp: noise_runs_def split: if_splits)
qed

lemma example_runs:
  "noise_runs [False, True, True, False, True, False, False, True, True, True] = [2, 1, 3]"
  by (simp add: noise_runs_def)

text \<open>
  C2. The streak lengths that \<open>calculate_statistics\<close> collects are the lengths of the
  maximal runs of true in \<open>is_noise\<close>: there is a run-length encoding of the flags (it
  decodes to them, neighbouring runs differ, no run is empty) whose true runs, in order,
  are the streaks. The average streak metric is the mean run length times the interval,
  the longest streak metric is the longest run times the interval, and both are 0 exactly
  when no flag is true. For the flags F T T F T F F T T T and an interval of 5 seconds
  the runs are 2, 1, 3, the average is 10 and the maximum is 15.
\<close>

theorem streak_analysis:
  assumes "data self = Some df" and "is_noise df = Some noise"
    and "measurement_interval self \<noteq> 0" and "dB df \<noteq> []"
  shows "\<exists>st enc runs.
           fst (calculate_statistics self) = Inr (Some st)
         \<and> decode enc = noise \<and> distinct_adj (map fst enc) \<and> list_all (\<lambda>run. 0 < snd run) enc
         \<and> runs = map snd (filter fst enc)
         \<and> st Avg_noise_streak_seconds =
             Some (Number (Fin (if runs = [] then 0
                                else real (sum_list runs) / real (length runs)
                                       * measurement_interval self)))
         \<and> st Max_noise_streak_seconds =
             Some (Number (Fin (if runs = [] then 0
                                else real (Max (set runs)) * measurement_interval self)))
         \<and> (runs = [] \<longleftrightarrow> True \<notin> set noise)
         \<and> (noise = [False, True, True, False, True, False, False, True, True, True]
              \<and> measurement_interval self = 5
            \<longrightarrow> runs = [2, 1, 3]
              \<and> st Avg_noise_streak_seconds = Some (Number (Fin 10))
              \<and> st Max_noise_streak_seconds = Some (Number (Fin 15)))"
proof -
  let ?st = "full_stats (measurement_interval self) df noise"
  let ?runs = "noise_runs noise"
  have ret: "fst (calculate_statistics self) = Inr (Some ?st)"
    by (simp add: calculate_statistics_returns [OF assms])
  have enc: "decode (rle noise) = noise" "distinct_adj (map fst (rle noise))"
    "list_all (\<lambda>run. 0 < snd run) (rle noise)" "?runs = map snd (filter fst (rle noise))"
    by (simp_all add: decode_rle rle_maximal rle_positive noise_runs_def)
  have avg: "?st Avg_noise_streak_seconds =
      Some (Number (Fin (if ?runs = [] then 0
                         else real (sum_list ?runs) / real (length ?runs)
                                * measurement_interval self)))"
    by (simp add: full_stats_streaks noise_streaks_runs avg_streak_seconds_def)
  have mx: "?st Max_noise_streak_seconds =
      Some (Number (Fin (if ?runs = [] then 0
                         else real (Max (set ?runs)) * measurement_interval self)))"
    by (simp add: full_stats_streaks noise_streaks_runs max_streak_seconds_def)
  have ex: "noise = [False, True, True, False, True, False, False, True, True, True]
              \<and> measurement_interval self = 5
            \<longrightarrow> ?runs = [2, 1, 3]
              \<and> ?st Avg_noise_streak_seconds = Some (Number (Fin 10))
              \<and> ?st Max_noise_streak_seconds = Some (Number (Fin 15))"
  proof (intro impI, elim conjE)
    assume n: "noise = [False, True, True, False, True, False, False, True, True, True]"
      and i: "measurement_interval self = 5"
    have r: "?runs = [2, 1, 3]" unfolding n by (rule example_runs)
    show "?runs = [2, 1, 3]
              \<and> ?st Avg_noise_streak_seconds = Some (Number (Fin 10))
              \<and> ?st Max_noise_streak_seconds = Some (Number (Fin 15))"
      using avg mx unfolding r i by simp
  qed
  from ret enc avg mx ex noise_runs_Nil [of noise] show ?thesis by blast
qed

theorem streak_analysis_witness:
  "data streak_night = Some streak_frame
   \<and> is_noise streak_frame =
       Some [False, True, True, False, True, False, False, True, True, True]
   \<and> measurement_interval streak_night \<noteq> 0 \<and> dB streak_frame \<noteq> []
   \<and> (\<exists>st. fst (calculate_statistics streak_night) = Inr (Some st)
          \<and> st Avg_noise_streak_seconds = Some (Number (Fin 10))
          \<and> st Max_noise_streak_seconds = Some (Number (Fin 15)))"
proof -
  have h: "data streak_night = Some streak_frame"
    "is_noise streak_frame =
       Some [False, True, True, False, True, False, False, True, True, True]"
    "measurement_interval streak_night \<noteq> 0" "dB streak_frame \<noteq> []"
    by (simp_all add: streak_night_def streak_frame_def)
  have i: "measurement_interval streak_night = 5"
    by (simp add: streak_night_def)
  from streak_analysis [OF h] i h show ?thesis by blast
qed

subsection \<open>Loading and preprocessing\<close>

lemma load_data_interval_pos: "0 < measurement_interval self \<Longrightarrow> 0 < measurement_interval (load_data rows self)"
  by (simp add: load_data_def Let_def split: option.splits)

lemma annotated_columns:
  "dB (annotated w t df) = dB df"
  "is_noise (annotated w t df) = Some (map (\<lambda>x. t \<le> x) (dB df))"
  "dB_smoothed (annotated w t df) = Some (rolling_mean w 1 (dB df))"
  by (simp_all add: annotated_def Let_def)

lemma preprocess_data_ok:
  assumes "data self = Some df" and "1 \<le> w"
  shows "preprocess_data w self = Inr (self\<lparr>data := Some (annotated w (threshold_db self) df)\<rparr>)"
  using assms by (simp add: preprocess_data_def)

subsection \<open>A frame without rows\<close>

lemma calculate_statistics_empty:
  assumes "data self = Some df" and "is_noise df = Some noise"
    and "measurement_interval self \<noteq> 0" and "dB df = []"
  shows "calculate_statistics self =
      (Inl IndexError,
       self\<lparr>stats := band_stats df ((rem_stats df (scalar_stats (measurement_interval self) df noise))
               (First_hour_noise_ratio_pct \<mapsto> Number (first_hour_ratio (measurement_interval self) 0 noise)))\<rparr>)"
  using assms by (simp add: calculate_statistics_def Let_def)

text \<open>
  C3. On the frame of a file that holds no record, after preprocessing with the default
  window, \<open>calculate_statistics\<close> raises IndexError, and it does so at the hourly step,
  after the other metrics have been computed and assigned: the analyzer's dictionary,
  empty before the call, afterwards holds a sample count of 0, \<open>nan\<close> ratios and mean,
  and streak metrics of 0; only the hourly list is missing.
\<close>

theorem empty_series_crashes_late:
  "\<exists>self'. preprocess_data default_window_size empty_night = Inr self'
     \<and> stats self' = Map.empty
     \<and> fst (calculate_statistics self') = Inl IndexError
     \<and> stats (snd (calculate_statistics self')) Total_samples = Some (Number (Fin 0))
     \<and> stats (snd (calculate_statistics self')) Noise_ratio_pct = Some (Number NaN)
     \<and> stats (snd (calculate_statistics self')) Mean_db = Some (Number NaN)
     \<and> stats (snd (calculate_statistics self')) Avg_noise_streak_seconds = Some (Number (Fin 0))
     \<and> stats (snd (calculate_statistics self')) Max_noise_streak_seconds = Some (Number (Fin 0))
     \<and> stats (snd (calculate_statistics self')) First_hour_noise_ratio_pct = Some (Number NaN)
     \<and> stats (snd (calculate_statistics self')) Disturbed_pct = Some (Number NaN)
     \<and> stats (snd (calculate_statistics self')) Hourly_quality = None"
proof -
  let ?df = "annotated default_window_size (threshold_db empty_night)
               \<lparr>dB = [], dB_smoothed = None, is_noise = None, is_rem = None\<rparr>"
  let ?a = "empty_night\<lparr>data := Some ?df\<rparr>"
  have e: "data empty_night = Some \<lparr>dB = [], dB_smoothed = None, is_noise = None, is_rem = None\<rparr>"
    "measurement_interval empty_night = 1" "stats empty_night = Map.empty"
    by (simp_all add: empty_night_def load_data_def new_analyzer_def)
  have p: "preprocess_data default_window_size empty_night = Inr ?a"
    by (rule preprocess_data_ok [OF e(1)]) (simp add: default_window_size_def)
  have d: "dB ?df = []" "is_noise ?df = Some []"
    by (simp_all add: annotated_columns)
  have c: "calculate_statistics ?a =
      (Inl IndexError,
       ?a\<lparr>stats := band_stats ?df ((rem_stats ?df (scalar_stats 1 ?df []))
               (First_hour_noise_ratio_pct \<mapsto> Number (first_hour_ratio 1 0 [])))\<rparr>)"
    using calculate_statistics_empty [of ?a ?df "[]"] d e by simp
  have v: "stats (snd (calculate_statistics ?a)) Total_samples = Some (Number (Fin 0))"
    "stats (snd (calculate_statistics ?a)) Noise_ratio_pct = Some (Number NaN)"
    "stats (snd (calculate_statistics ?a)) Mean_db = Some (Number NaN)"
    "stats (snd (calculate_statistics ?a)) Avg_noise_streak_seconds = Some (Number (Fin 0))"
    "stats (snd (calculate_statistics ?a)) Max_noise_streak_seconds = Some (Number (Fin 0))"
    "stats (snd (calculate_statistics ?a)) First_hour_noise_ratio_pct = Some (Number NaN)"
    "stats (snd (calculate_statistics ?a)) Disturbed_pct = Some (Number NaN)"
    "stats (snd (calculate_statistics ?a)) Hourly_quality = None"
    unfolding c
    by (simp_all add: d band_stats_def rem_stats_other scalar_stats_def first_hour_ratio_def
        pct_def np_div_def count_where_def bool_sum_def series_mean_def noise_streaks_def
        avg_streak_seconds_def max_streak_seconds_def slice_to_def py_int_def Let_def)
  have f: "fst (calculate_statistics ?a) = Inl IndexError" "stats ?a = Map.empty"
    using c e by simp_all
  from p f v show ?thesis by blast
qed

subsection \<open>The hourly list\<close>

lemma full_stats_hourly:
  "full_stats interval df noise Hourly_quality =
     Some (Buckets (hourly_quality_of (time_hours_of interval (length (dB df))) (dB df)))"
  by (simp add: full_stats_def)

lemma full_stats_total:
  "full_stats interval df noise Total_samples = Some (Number (Fin (real (length (dB df)))))"
  by (simp add: full_stats_def band_stats_def rem_stats_other scalar_stats_def Let_def)

lemma preprocess_then_calculate:
  assumes "data self = Some df" and "1 \<le> w" and "measurement_interval self \<noteq> 0"
    and "dB df \<noteq> []"
  shows "\<exists>a. preprocess_data w self = Inr a
           \<and> fst (calculate_statistics a) =
               Inr (Some (full_stats (measurement_interval self)
                            (annotated w (threshold_db self) df)
                            (map (\<lambda>x. threshold_db self \<le> x) (dB df))))"
proof -
  let ?df = "annotated w (threshold_db self) df"
  let ?a = "self\<lparr>data := Some ?df\<rparr>"
  have "calculate_statistics ?a =
          (Inr (Some (full_stats (measurement_interval ?a) ?df
                       (map (\<lambda>x. threshold_db self \<le> x) (dB df)))),
           ?a\<lparr>stats := full_stats (measurement_interval ?a) ?df
                       (map (\<lambda>x. threshold_db self \<le> x) (dB df))\<rparr>)"
    by (rule calculate_statistics_returns) (use assms in \<open>simp_all add: annotated_columns\<close>)
  then show ?thesis
    using preprocess_data_ok [OF assms(1,2)] by simp
qed

text \<open>
  C4. The hourly list misses the hour of the last row whenever that row lies exactly on an
  hour boundary. A single row, at elapsed time 0, gives an empty list although one row was
  counted; three rows half an hour apart give the one bucket of hour 0, holding the first
  two rows, and no bucket for hour 1, in which the third row lies.
\<close>

theorem hourly_misses_last_hour:
  "(\<exists>a st. preprocess_data default_window_size single_night = Inr a
        \<and> fst (calculate_statistics a) = Inr (Some st)
        \<and> st Total_samples = Some (Number (Fin 1))
        \<and> st Hourly_quality = Some (Buckets []))
   \<and> (\<exists>a st. preprocess_data default_window_size boundary_night = Inr a
        \<and> fst (calculate_statistics a) = Inr (Some st)
        \<and> st Total_samples = Some (Number (Fin 3))
        \<and> st Hourly_quality =
            Some (Buckets [\<lparr>hour = 0, avg_db = Fin 32, deep_sleep = Fin 50,
                            restless = Fin 50\<rparr>]))"
proof -
  let ?d1 = "\<lparr>dB = [35], dB_smoothed = None, is_noise = None, is_rem = None\<rparr>"
  let ?d3 = "\<lparr>dB = [28, 36, 45], dB_smoothed = None, is_noise = None, is_rem = None\<rparr>"
  have s: "data single_night = Some ?d1" "measurement_interval single_night = 1"
    by (simp_all add: single_night_def load_data_def new_analyzer_def)
  have b: "data boundary_night = Some ?d3" "measurement_interval boundary_night = 1800"
    by (simp_all add: boundary_night_def load_data_def new_analyzer_def)
  have w: "1 \<le> default_window_size" by (simp add: default_window_size_def)
  have h1: "hourly_quality_of (time_hours_of 1 (length [35::real])) [35] = []"
    by (simp add: hourly_quality_of_def time_hours_of_def py_int_def)
  have u: "[0..<3] = [0, 1, 2]" by code_simp
  have t3: "time_hours_of 1800 3 = [0, 1 / 2, 1]"
    by (simp add: time_hours_of_def u)
  have l: "length [28, 36, 45 :: real] = 3" by simp
  have h3: "hourly_quality_of (time_hours_of 1800 (length [28, 36, 45 :: real])) [28, 36, 45] =
      [\<lparr>hour = 0, avg_db = Fin 32, deep_sleep = Fin 50, restless = Fin 50\<rparr>]"
    unfolding l t3
    by (simp add: hourly_quality_of_def py_int_def List.map_filter_def hour_entry_def
        bool_sum_def count_where_def series_mean_def pct_def np_div_def Let_def)
  from preprocess_then_calculate [OF s(1) w] s(2) obtain a1 where
    a1: "preprocess_data default_window_size single_night = Inr a1"
    "fst (calculate_statistics a1) =
       Inr (Some (full_stats 1 (annotated default_window_size (threshold_db single_night) ?d1)
                    (map (\<lambda>x. threshold_db single_night \<le> x) (dB ?d1))))"
    by auto
  from preprocess_then_calculate [OF b(1) w] b(2) obtain a3 where
    a3: "preprocess_data default_window_size boundary_night = Inr a3"
    "fst (calculate_statistics a3) =
       Inr (Some (full_stats 1800 (annotated default_window_size (threshold_db boundary_night) ?d3)
                    (map (\<lambda>x. threshold_db boundary_night \<le> x) (dB ?d3))))"
    by auto
  have one: "\<exists>a st. preprocess_data default_window_size single_night = Inr a
        \<and> fst (calculate_statistics a) = Inr (Some st)
        \<and> st Total_samples = Some (Number (Fin 1))
        \<and> st Hourly_quality = Some (Buckets [])"
    using a1 h1 by (simp add: full_stats_hourly full_stats_total annotated_columns)
  have three: "\<exists>a st. preprocess_data default_window_size boundary_night = Inr a
        \<and> fst (calculate_statistics a) = Inr (Some st)
        \<and> st Total_samples = Some (Number (Fin 3))
        \<and> st Hourly_quality =
            Some (Buckets [\<lparr>hour = 0, avg_db = Fin 32, deep_sleep = Fin 50,
                            restless = Fin 50\<rparr>])"
    using a3 h3 by (simp add: full_stats_hourly full_stats_total annotated_columns)
  from one three show ?thesis by (rule conjI)
qed

subsection \<open>Rounding\<close>













subsection \<open>Registering a condition\<close>

lemma analyze_condition_failed_load:
  "analyze_condition threshold None condition_name None condition_stats =
     Inr (dict_set condition_name None condition_stats)"
  by (simp add: analyze_condition_def new_analyzer_def preprocess_data_def
      calculate_statistics_def)

lemma analyze_condition_analysed:
  assumes "rows \<noteq> []"
  shows "\<exists>st. analyze_condition threshold (Some rows) condition_name None condition_stats =
                Inr (dict_set condition_name (Some st) condition_stats)
              \<and> analysed st"
proof -
  let ?a = "load_data rows (new_analyzer threshold)"
  let ?df = "\<lparr>dB = map snd rows, dB_smoothed = None, is_noise = None, is_rem = None\<rparr>"
  have d: "data ?a = Some ?df" by (simp add: load_data_def Let_def)
  have i: "measurement_interval ?a \<noteq> 0"
    using load_data_interval_pos [of "new_analyzer threshold" rows]
    by (simp add: new_analyzer_def)
  have w: "1 \<le> default_window_size" by (simp add: default_window_size_def)
  have n: "dB ?df \<noteq> []" using assms by simp
  let ?st = "full_stats (measurement_interval ?a)
              (annotated default_window_size (threshold_db ?a) ?df)
              (map (\<lambda>x. threshold_db ?a \<le> x) (dB ?df))"
  from preprocess_then_calculate [OF d w i n] obtain a2 where
    p: "preprocess_data default_window_size ?a = Inr a2"
    and c: "fst (calculate_statistics a2) = Inr (Some ?st)"
    by blast
  have "analyze_condition threshold (Some rows) condition_name None condition_stats =
          Inr (dict_set condition_name (Some ?st) condition_stats)"
    unfolding analyze_condition_def Let_def option.case p sum.case c by (rule refl)
  then show ?thesis using full_stats_analysed by blast
qed

subsection \<open>The two-group decision\<close>







subsection \<open>The first hour\<close>

lemma full_stats_first_hour:
  "full_stats interval df noise First_hour_noise_ratio_pct =
     Some (Number (first_hour_ratio interval (length (dB df)) noise))"
  by (simp add: full_stats_def band_stats_def Let_def)

lemma bool_sum_take:
  "n \<le> length bs \<Longrightarrow> bool_sum (take n bs) = card {i. i < n \<and> bs ! i}"
proof -
  assume n: "n \<le> length bs"
  have "bool_sum (take n bs) = card {i. i < length (take n bs) \<and> (take n bs) ! i}"
    unfolding bool_sum_def by (rule length_filter_conv_card)
  also have "{i. i < length (take n bs) \<and> (take n bs) ! i} = {i. i < n \<and> bs ! i}"
    using n by auto
  finally show ?thesis .
qed

lemma pct_count:
  "c \<le> n \<Longrightarrow> pct (real c) (real n) = (if n = 0 then NaN else Fin (100 * real c / real n))"
  by (simp add: pct_def np_div_def)

lemma first_hour_ratio_eq:
  assumes "0 < interval" and "length noise = m"
  shows "first_hour_ratio interval m noise =
           (let n = min (nat \<lfloor>3600 / interval\<rfloor>) m
            in if n = 0 then NaN
               else Fin (100 * real (card {i. i < n \<and> noise ! i}) / real n))"
proof -
  let ?k = "\<lfloor>3600 / interval\<rfloor>"
  let ?n = "min (nat ?k) m"
  have k: "0 \<le> ?k" using assms(1) by simp
  have p: "py_int (3600 / interval) = ?k" using assms(1) by (simp add: py_int_def)
  have mk: "min ?k (int m) = int ?n" using k by linarith
  have s: "slice_to noise (int ?n) = take ?n noise" by (simp add: slice_to_def)
  have c: "bool_sum (take ?n noise) = card {i. i < ?n \<and> noise ! i}"
    by (rule bool_sum_take) (simp add: assms(2))
  have "bool_sum (take ?n noise) \<le> length (take ?n noise)"
    unfolding bool_sum_def by (rule length_filter_le)
  then have le: "card {i. i < ?n \<and> noise ! i} \<le> ?n"
    unfolding c by simp
  have "first_hour_ratio interval m noise =
          pct (real (card {i. i < ?n \<and> noise ! i})) (real ?n)"
    unfolding first_hour_ratio_def Let_def p mk s c by simp
  also have "\<dots> = (if ?n = 0 then NaN
               else Fin (100 * real (card {i. i < ?n \<and> noise ! i}) / real ?n))"
    by (rule pct_count) (use le in simp)
  finally show ?thesis by (simp add: Let_def)
qed

text \<open>
  C6. For a frame with at least one row and a positive interval, the first-hour noise
  ratio is 100 times the number of positions below \<open>n\<close> whose flag is true, divided by
  \<open>n\<close>, where \<open>n\<close> is the floor of 3600 over the interval, at most the number of rows:
  rows are chosen by position. (For an interval above 3600 seconds \<open>n\<close> is 0 and the
  quotient 0 / 0 is \<open>nan\<close>.)
\<close>

theorem first_hour_noise_ratio:
  assumes "data self = Some df" and "is_noise df = Some noise"
    and "0 < measurement_interval self" and "dB df \<noteq> []"
    and "length noise = length (dB df)"
  shows "\<exists>st n. fst (calculate_statistics self) = Inr (Some st)
           \<and> n = min (nat \<lfloor>3600 / measurement_interval self\<rfloor>) (length (dB df))
           \<and> st First_hour_noise_ratio_pct =
               Some (Number (if n = 0 then NaN
                             else Fin (100 * real (card {i. i < n \<and> noise ! i}) / real n)))"
proof -
  have i: "measurement_interval self \<noteq> 0" using assms(3) by simp
  show ?thesis
    unfolding calculate_statistics_returns [OF assms(1,2) i assms(4)]
    using first_hour_ratio_eq [OF assms(3,5)]
    by (simp add: full_stats_first_hour Let_def)
qed

theorem first_hour_noise_ratio_witness:
  "data night = Some night_frame
   \<and> is_noise night_frame = Some [False, False, False, True]
   \<and> 0 < measurement_interval night \<and> dB night_frame \<noteq> []
   \<and> length [False, False, False, True] = length (dB night_frame)
   \<and> (\<exists>st. fst (calculate_statistics night) = Inr (Some st)
          \<and> st First_hour_noise_ratio_pct = Some (Number (Fin 25)))"
proof -
  have h: "data night = Some night_frame"
    "is_noise night_frame = Some [False, False, False, True]"
    "0 < measurement_interval night" "dB night_frame \<noteq> []"
    "length [False, False, False, True] = length (dB night_frame)"
    by (simp_all add: night_def night_frame_def)
  have n: "min (nat \<lfloor>3600 / measurement_interval night\<rfloor>) (length (dB night_frame)) = 4"
    by (simp add: night_def night_frame_def)
  have c: "card {i. i < 4 \<and> [False, False, False, True] ! i} = 1"
    using bool_sum_take [of 4 "[False, False, False, True]"] by (simp add: bool_sum_def)
  from first_hour_noise_ratio [OF h] obtain st where
    "fst (calculate_statistics night) = Inr (Some st)"
    "st First_hour_noise_ratio_pct = Some (Number (Fin 25))"
    unfolding n using c by auto
  with h show ?thesis by blast
qed

subsection \<open>Smoothing\<close>

lemma window_bounds_eq:
  assumes "i < n" and "1 \<le> w"
  shows "window_bounds n w i =
           (nat (int i - w div 2), min n (nat (int i + 1 + (w - 1) div 2)))"
proof -
  have e: "int i + 1 + (w - 1) div 2 - w = int i - w div 2" by presburger
  have o: "0 \<le> (w - 1) div 2" using assms(2) by simp
  show ?thesis
    unfolding window_bounds_def Let_def e clip_def
    using assms o by (auto simp: min_def max_def)
qed

lemma window_bounds_contains:
  assumes "i < n" and "1 \<le> w"
  shows "nat (int i - w div 2) \<le> i"
    and "i < min n (nat (int i + 1 + (w - 1) div 2))"
proof -
  have "0 \<le> w div 2" using assms(2) by simp
  then show "nat (int i - w div 2) \<le> i" by linarith
  have "0 \<le> (w - 1) div 2" using assms(2) by simp
  then show "i < min n (nat (int i + 1 + (w - 1) div 2))" using assms(1) by linarith
qed

lemma rolling_mean_length: "length (rolling_mean w p xs) = length xs"
  by (simp add: rolling_mean_def rolling_windows_def)

lemma window_mean:
  fixes xs :: "real list"
  assumes "lo \<le> i" and "i < hi" and "hi \<le> length xs"
  shows "(if length (take (hi - lo) (drop lo xs)) \<ge> 1
          then series_mean (take (hi - lo) (drop lo xs)) else NaN)
         = Fin (sum_list (take (hi - lo) (drop lo xs)) / real (hi - lo))"
proof -
  have l: "length (take (hi - lo) (drop lo xs)) = hi - lo"
    using assms by simp
  have pos: "0 < hi - lo" using assms by simp
  then have ne: "take (hi - lo) (drop lo xs) \<noteq> []" using l by auto
  have one: "1 \<le> length (take (hi - lo) (drop lo xs))" unfolding l using pos by linarith
  show ?thesis unfolding if_P [OF one] using ne by (simp only: series_mean_def if_False l)
qed

lemma rolling_mean_nth:
  assumes "i < length xs" and "1 \<le> w"
  shows "\<exists>lo hi. lo = nat (int i - w div 2)
           \<and> hi = min (length xs) (nat (int i + 1 + (w - 1) div 2))
           \<and> lo \<le> i \<and> i < hi \<and> hi \<le> length xs
           \<and> rolling_mean w 1 xs ! i =
               Fin (sum_list (take (hi - lo) (drop lo xs)) / real (hi - lo))"
proof -
  define lo where "lo = nat (int i - w div 2)"
  define hi where "hi = min (length xs) (nat (int i + 1 + (w - 1) div 2))"
  have c: "lo \<le> i" "i < hi"
    using window_bounds_contains [OF assms] by (simp_all only: lo_def hi_def)
  have h: "hi \<le> length xs" unfolding hi_def by (rule min.cobounded1)
  have b: "window_bounds (length xs) w i = (lo, hi)"
    unfolding lo_def hi_def by (rule window_bounds_eq [OF assms])
  have n: "rolling_windows w xs ! i = take (hi - lo) (drop lo xs)"
    using assms(1) by (simp add: rolling_windows_def b)
  have "rolling_mean w 1 xs ! i =
          (if length (take (hi - lo) (drop lo xs)) \<ge> 1
           then series_mean (take (hi - lo) (drop lo xs)) else NaN)"
    using assms(1) unfolding rolling_mean_def by (simp add: rolling_windows_def b)
  also have "\<dots> = Fin (sum_list (take (hi - lo) (drop lo xs)) / real (hi - lo))"
    by (rule window_mean [OF c h])
  finally show ?thesis using c h lo_def hi_def by blast
qed

lemma rolling_mean_identity: "rolling_mean 1 1 xs = map Fin xs"
proof (rule nth_equalityI)
  show "length (rolling_mean 1 1 xs) = length (map Fin xs)"
    by (simp add: rolling_mean_length)
next
  fix i assume "i < length (rolling_mean 1 1 xs)"
  then have i: "i < length xs" by (simp add: rolling_mean_length)
  have t: "take (Suc 0) (drop i xs) = [xs ! i]"
    using i by (simp add: take_Suc_conv_app_nth Cons_nth_drop_Suc [symmetric])
  have lo: "nat (int i - 1 div 2) = i" by simp
  have hi: "min (length xs) (nat (int i + 1 + (1 - 1) div 2)) = Suc i"
    using i by (simp add: min_def) linarith
  have d: "Suc i - i = Suc 0" by simp
  from rolling_mean_nth [OF i, of 1]
  have "rolling_mean 1 1 xs ! i = Fin (sum_list (take (Suc 0) (drop i xs)) / real (Suc 0))"
    unfolding lo hi d by simp
  then show "rolling_mean 1 1 xs ! i = map Fin xs ! i"
    using i t by simp
qed

text \<open>
  C7. With data and a window of at least one, \<open>preprocess_data\<close> writes a smoothed column
  that has one value for each row. No value is missing: the value of row \<open>i\<close> is the mean
  of the rows from \<open>i - w div 2\<close> (not below the first) up to \<open>i + (w - 1) div 2\<close> (not
  beyond the last), a range that holds row \<open>i\<close> itself. With a window of one the smoothed
  column is the column of levels.
\<close>

theorem smoothing_length_and_identity:
  assumes "data self = Some df" and "1 \<le> w"
  shows "\<exists>self' df' smoothed.
           preprocess_data w self = Inr self' \<and> data self' = Some df' \<and> dB df' = dB df
         \<and> dB_smoothed df' = Some smoothed
         \<and> length smoothed = length (dB df)
         \<and> (\<forall>i < length (dB df). \<exists>lo hi.
                lo = nat (int i - w div 2)
              \<and> hi = min (length (dB df)) (nat (int i + 1 + (w - 1) div 2))
              \<and> lo \<le> i \<and> i < hi \<and> hi \<le> length (dB df)
              \<and> smoothed ! i =
                  Fin (sum_list (take (hi - lo) (drop lo (dB df))) / real (hi - lo)))
         \<and> (w = 1 \<longrightarrow> smoothed = map Fin (dB df))"
proof -
  let ?df = "annotated w (threshold_db self) df"
  let ?sm = "rolling_mean w 1 (dB df)"
  have p: "preprocess_data w self = Inr (self\<lparr>data := Some ?df\<rparr>)"
    by (rule preprocess_data_ok [OF assms])
  have "data (self\<lparr>data := Some ?df\<rparr>) = Some ?df" by simp
  moreover have "dB ?df = dB df" "dB_smoothed ?df = Some ?sm"
    by (simp_all add: annotated_columns)
  moreover have "length ?sm = length (dB df)" by (rule rolling_mean_length)
  moreover have "\<forall>i < length (dB df). \<exists>lo hi.
                lo = nat (int i - w div 2)
              \<and> hi = min (length (dB df)) (nat (int i + 1 + (w - 1) div 2))
              \<and> lo \<le> i \<and> i < hi \<and> hi \<le> length (dB df)
              \<and> ?sm ! i =
                  Fin (sum_list (take (hi - lo) (drop lo (dB df))) / real (hi - lo))"
    using rolling_mean_nth [OF _ assms(2)] by blast
  moreover have "w = 1 \<longrightarrow> ?sm = map Fin (dB df)"
  proof
    assume "w = 1"
    then show "?sm = map Fin (dB df)" by (simp only: rolling_mean_identity)
  qed
  ultimately show ?thesis using p by blast
qed


theorem smoothing_length_and_identity_witness:
  "data night = Some night_frame \<and> (1::int) \<le> 1
   \<and> (\<exists>self' df'. preprocess_data 1 night = Inr self' \<and> data self' = Some df'
          \<and> dB_smoothed df' = Some [Fin 25, Fin 32, Fin 37, Fin 45])"
proof -
  have h: "data night = Some night_frame" "(1::int) \<le> 1"
    by (simp_all add: night_def)
  have d: "map Fin (dB night_frame) = [Fin 25, Fin 32, Fin 37, Fin 45]"
    by (simp add: night_frame_def)
  from smoothing_length_and_identity [OF h] obtain self' df' smoothed where
    "preprocess_data 1 night = Inr self'" "data self' = Some df'"
    "dB_smoothed df' = Some smoothed" "smoothed = map Fin (dB night_frame)"
    by blast
  with h d show ?thesis by auto
qed

subsection \<open>The comparison table\<close>






subsection \<open>The standard deviation\<close>

lemma full_stats_std:
  "full_stats interval df noise Stddev_db = Some (Number (series_std default_ddof (dB df)))"
  by (simp add: full_stats_def band_stats_def rem_stats_other scalar_stats_def Let_def)

lemma series_std_sample:
  assumes "2 \<le> length xs"
  shows "series_std default_ddof xs =
           Fin (sqrt (sum_list (map (\<lambda>x. (x - sum_list xs / real (length xs))\<^sup>2) xs)
                      / real (length xs - 1)))"
proof -
  have d: "int (length xs) - int 1 = int (length xs - 1)" using assms by simp
  have p: "\<not> int (length xs - 1) \<le> 0" using assms by simp
  have c: "(\<lambda>x. (sum_list xs / real (length xs) - x)\<^sup>2)
             = (\<lambda>x. (x - sum_list xs / real (length xs))\<^sup>2)"
    by (rule ext) (rule power2_commute)
  show ?thesis
    unfolding series_std_def series_var_def default_ddof_def Let_def d c
    using p by simp
qed

lemma series_std_single: "length xs = 1 \<Longrightarrow> series_std default_ddof xs = NaN"
  by (simp add: series_std_def series_var_def default_ddof_def)

text \<open>
  C9. The standard deviation metric is the sample standard deviation: for a frame of at
  least two rows it is the square root of the sum of the squared deviations from the mean
  divided by the number of rows less one. For a single row it is \<open>nan\<close>, not 0. It is not
  the population standard deviation: whenever the levels are not all equal it differs from
  the square root of the same sum divided by the number of rows.
\<close>

theorem stddev_is_sample_deviation:
  assumes "data self = Some df" and "is_noise df = Some noise"
    and "measurement_interval self \<noteq> 0" and "dB df \<noteq> []"
  shows "\<exists>st mean ss.
           fst (calculate_statistics self) = Inr (Some st)
         \<and> mean = sum_list (dB df) / real (length (dB df))
         \<and> ss = sum_list (map (\<lambda>x. (x - mean)\<^sup>2) (dB df))
         \<and> (2 \<le> length (dB df) \<longrightarrow>
              st Stddev_db = Some (Number (Fin (sqrt (ss / real (length (dB df) - 1))))))
         \<and> (length (dB df) = 1 \<longrightarrow> st Stddev_db = Some (Number NaN))
         \<and> (2 \<le> length (dB df) \<and> 0 < ss \<longrightarrow>
              st Stddev_db \<noteq> Some (Number (Fin (sqrt (ss / real (length (dB df)))))))"
proof -
  let ?n = "length (dB df)"
  let ?mean = "sum_list (dB df) / real ?n"
  let ?ss = "sum_list (map (\<lambda>x. (x - ?mean)\<^sup>2) (dB df))"
  let ?st = "full_stats (measurement_interval self) df noise"
  have r: "fst (calculate_statistics self) = Inr (Some ?st)"
    by (simp add: calculate_statistics_returns [OF assms])
  have s: "2 \<le> ?n \<longrightarrow> ?st Stddev_db = Some (Number (Fin (sqrt (?ss / real (?n - 1)))))"
    by (simp add: full_stats_std series_std_sample)
  have o: "?n = 1 \<longrightarrow> ?st Stddev_db = Some (Number NaN)"
    by (simp add: full_stats_std series_std_single)
  have p: "2 \<le> ?n \<and> 0 < ?ss \<longrightarrow>
              ?st Stddev_db \<noteq> Some (Number (Fin (sqrt (?ss / real ?n))))"
  proof (intro impI, elim conjE)
    assume n: "2 \<le> ?n" and pos: "0 < ?ss"
    have "real (?n - 1) < real ?n" using n by simp
    moreover have "0 < real (?n - 1)" using n by simp
    ultimately have lt: "?ss / real ?n < ?ss / real (?n - 1)"
      using pos by (simp add: frac_less2)
    have "?ss / real (?n - 1) \<noteq> ?ss / real ?n"
    proof
      assume e: "?ss / real (?n - 1) = ?ss / real ?n"
      from lt show False unfolding e by simp
    qed
    then have "sqrt (?ss / real (?n - 1)) \<noteq> sqrt (?ss / real ?n)"
      by (simp only: real_sqrt_eq_iff not_False_eq_True)
    with s n show "?st Stddev_db \<noteq> Some (Number (Fin (sqrt (?ss / real ?n))))" by simp
  qed
  from r s o p show ?thesis by blast
qed

theorem stddev_is_sample_deviation_witness:
  "data pair_night = Some pair_frame \<and> is_noise pair_frame = Some [False, False]
   \<and> measurement_interval pair_night \<noteq> 0 \<and> dB pair_frame \<noteq> []
   \<and> (\<exists>st. fst (calculate_statistics pair_night) = Inr (Some st)
          \<and> st Stddev_db = Some (Number (Fin (sqrt 8)))
          \<and> st Stddev_db \<noteq> Some (Number (Fin (sqrt 4))))"
proof -
  have h: "data pair_night = Some pair_frame" "is_noise pair_frame = Some [False, False]"
    "measurement_interval pair_night \<noteq> 0" "dB pair_frame \<noteq> []"
    by (simp_all add: pair_night_def pair_frame_def)
  have n: "length (dB pair_frame) = 2" by (simp add: pair_frame_def)
  have ss: "sum_list (map (\<lambda>x. (x - sum_list (dB pair_frame) / real (length (dB pair_frame)))\<^sup>2)
                        (dB pair_frame)) = 8"
    by (simp add: pair_frame_def power2_eq_square)
  let ?ss = "sum_list (map (\<lambda>x. (x - sum_list (dB pair_frame) / real (length (dB pair_frame)))\<^sup>2)
                        (dB pair_frame))"
  from stddev_is_sample_deviation [OF h] obtain st where
    r: "fst (calculate_statistics pair_night) = Inr (Some st)"
    and s: "2 \<le> length (dB pair_frame) \<longrightarrow>
              st Stddev_db = Some (Number (Fin (sqrt (?ss / real (length (dB pair_frame) - 1)))))"
    and p: "2 \<le> length (dB pair_frame) \<and> 0 < ?ss \<longrightarrow>
              st Stddev_db \<noteq> Some (Number (Fin (sqrt (?ss / real (length (dB pair_frame))))))"
    by blast
  from s have "st Stddev_db = Some (Number (Fin (sqrt 8)))"
    unfolding ss unfolding n by simp
  moreover from p have "st Stddev_db \<noteq> Some (Number (Fin (sqrt 4)))"
    unfolding ss unfolding n by simp
  ultimately show ?thesis using h r by blast
qed

subsection \<open>Noise at the default threshold\<close>

lemma full_stats_noise:
  "full_stats interval df noise Noise_sample_count = Some (Number (Fin (real (bool_sum noise))))"
  "full_stats interval df noise Noise_ratio_pct =
     Some (Number (pct (real (bool_sum noise)) (real (length (dB df)))))"
  by (simp_all add: full_stats_def band_stats_def rem_stats_other scalar_stats_def Let_def)

text \<open>
  C10. With the default threshold of 40, preprocessing followed by
  \<open>calculate_statistics\<close> gives a noise sample count equal to the number of rows at or
  above 40, the rows of the disturbed band, and a noise ratio equal to the disturbed
  ratio.
\<close>

theorem noise_ratio_equals_disturbed:
  assumes "data self = Some df" and "threshold_db self = default_threshold_db"
    and "1 \<le> w" and "measurement_interval self \<noteq> 0" and "dB df \<noteq> []"
  shows "\<exists>self' st.
           preprocess_data w self = Inr self'
         \<and> fst (calculate_statistics self') = Inr (Some st)
         \<and> st Noise_sample_count =
             Some (Number (Fin (real (length (filter (\<lambda>x. 40 \<le> x) (dB df))))))
         \<and> st Disturbed_pct =
             Some (Number (Fin (real (length (filter (\<lambda>x. 40 \<le> x) (dB df)))
                                / real (length (dB df)) * 100)))
         \<and> st Noise_ratio_pct = st Disturbed_pct"
proof -
  let ?df = "annotated w (threshold_db self) df"
  let ?noise = "map (\<lambda>x. threshold_db self \<le> x) (dB df)"
  let ?st = "full_stats (measurement_interval self) ?df ?noise"
  from preprocess_then_calculate [OF assms(1,3,4,5)] obtain a where
    a: "preprocess_data w self = Inr a" "fst (calculate_statistics a) = Inr (Some ?st)"
    by blast
  have n: "real (length (dB df)) \<noteq> 0" using assms(5) by simp
  have c: "bool_sum ?noise = length (filter (\<lambda>x. 40 \<le> x) (dB df))"
    using count_where_eq [of "\<lambda>x. 40 \<le> x" "dB df"]
    by (simp add: assms(2) default_threshold_db_def count_where_def)
  have 1: "?st Noise_sample_count =
             Some (Number (Fin (real (length (filter (\<lambda>x. 40 \<le> x) (dB df))))))"
    unfolding full_stats_noise c by simp
  have 2: "?st Disturbed_pct =
             Some (Number (Fin (real (length (filter (\<lambda>x. 40 \<le> x) (dB df)))
                                / real (length (dB df)) * 100)))"
    using n by (simp add: full_stats_bands annotated_columns pct_pos count_where_eq)
  have 3: "?st Noise_ratio_pct = ?st Disturbed_pct"
    unfolding 2 unfolding full_stats_noise c using n by (simp add: annotated_columns pct_pos)
  from a 1 2 3 show ?thesis by blast
qed

theorem noise_ratio_equals_disturbed_witness:
  "data night = Some night_frame \<and> threshold_db night = default_threshold_db
   \<and> 1 \<le> default_window_size \<and> measurement_interval night \<noteq> 0 \<and> dB night_frame \<noteq> []
   \<and> (\<exists>self' st.
           preprocess_data default_window_size night = Inr self'
         \<and> fst (calculate_statistics self') = Inr (Some st)
         \<and> st Noise_sample_count = Some (Number (Fin 1))
         \<and> st Disturbed_pct = Some (Number (Fin 25))
         \<and> st Noise_ratio_pct = Some (Number (Fin 25)))"
proof -
  have h: "data night = Some night_frame" "threshold_db night = default_threshold_db"
    "1 \<le> default_window_size" "measurement_interval night \<noteq> 0" "dB night_frame \<noteq> []"
    by (simp_all add: night_def night_frame_def default_threshold_db_def
        default_window_size_def)
  have c: "real (length (filter (\<lambda>x. 40 \<le> x) (dB night_frame))) = 1"
    "real (length (dB night_frame)) = 4"
    by (simp_all add: night_frame_def)
  from noise_ratio_equals_disturbed [OF h] obtain self' st where
    "preprocess_data default_window_size night = Inr self'"
    "fst (calculate_statistics self') = Inr (Some st)"
    "st Noise_sample_count = Some (Number (Fin 1))"
    "st Disturbed_pct = Some (Number (Fin 25))"
    "st Noise_ratio_pct = st Disturbed_pct"
    unfolding c by auto
  with h show ?thesis by auto
qed

end
